theory Spec2Isabelle
  imports Complex_Main
begin

section \<open>CameraUtility: the camera state and its exceptions\<close>

text \<open>
  The module \<^verbatim>\<open>src/utility/CameraUtility.py\<close> reads and writes attributes of the host's
  scene (\<^verbatim>\<open>bpy.context.scene\<close>). The attributes it touches are the fields of the records
  below; Python floats are modelled as exact reals, Python integers as \<open>int\<close>. A host
  attribute is a plain store: what is assigned is what is read back.
\<close>

datatype error =
    FocalLengthBelow1mm real   \<comment> \<open>line 73: Exception("The focal length is smaller than 1mm ...")\<close>
  | NoSuchLensUnit string      \<comment> \<open>line 79: Exception("No such lens unit: ...")\<close>
  | ZeroDivisionError          \<comment> \<open>a Python float division by zero\<close>
  | ValueError                 \<comment> \<open>numpy: a reduction over no elements, a singular matrix\<close>
  | DistortionStalled          \<comment> \<open>line 346: "... unstable/stalled after 1000 iterations"\<close>
  | DistortionUnstable         \<comment> \<open>line 349: "... is unstable"\<close>
  | RuntimeError               \<comment> \<open>line 282\<close>

type_synonym object = string

type_synonym matrix = "real list list"

record dof_settings =
  use_dof :: bool
  focus_object :: "object option"
  focus_distance :: real
  aperture_fstop :: real
  aperture_blades :: int
  aperture_rotation :: real
  aperture_ratio :: real

record camera =
  lens_unit :: string
  lens :: real
  angle :: real
  sensor_fit :: string
  sensor_width :: real
  sensor_height :: real
  clip_start :: real
  clip_end :: real
  shift_x :: real
  shift_y :: real
  dof :: dof_settings

record mat3 =
  m00 :: real
  m01 :: real
  m02 :: real
  m10 :: real
  m11 :: real
  m12 :: real
  m20 :: real
  m21 :: real
  m22 :: real

text \<open>
  What \<^verbatim>\<open>set_lens_distortion\<close> hands to the global storage: the dictionary with the keys
  \<^verbatim>\<open>mapping_coords\<close> (a 2 x N array, rows \<open>v\<close> and \<open>u\<close>) and \<^verbatim>\<open>original_image_res\<close>.
\<close>

record lens_distortion_data =
  mapping_coords :: "real list list"
  original_image_res :: "int \<times> int"

record scene =
  cam :: camera                                     \<comment> \<open>\<^verbatim>\<open>scene.camera.data\<close>\<close>
  matrix_world :: matrix                            \<comment> \<open>\<^verbatim>\<open>scene.camera.matrix_world\<close>\<close>
  keyframes :: "string \<times> int \<rightharpoonup> matrix"   \<comment> \<open>keyframes of \<^verbatim>\<open>scene.camera\<close>\<close>
  frame_end :: int
  resolution_x :: int                               \<comment> \<open>\<^verbatim>\<open>scene.render.resolution_x\<close>\<close>
  resolution_y :: int
  pixel_aspect_x :: real
  pixel_aspect_y :: real
  global_storage :: "string \<rightharpoonup> lens_distortion_data"

text \<open>
  A function that mutates the scene returns \<open>Inr\<close> of the new scene, or \<open>Inl\<close> of the
  exception together with the scene as the raise leaves it.
\<close>

type_synonym 'a raises = "(error \<times> 'a) + 'a"

subsection \<open>add_camera_pose (lines 10-35)\<close>

text \<open>
  \<^verbatim>\<open>keyframe_insert(data_path, frame)\<close> is the host's: it records, for the property and
  the frame, the value the property has at that moment. Location and rotation are both
  read off \<^verbatim>\<open>matrix_world\<close>, so the keyframe holds that matrix.
\<close>

definition keyframe_insert :: "scene \<Rightarrow> string \<Rightarrow> int \<Rightarrow> scene" where
  "keyframe_insert s data_path frame =
     s\<lparr>keyframes := (keyframes s)((data_path, frame) \<mapsto> matrix_world s)\<rparr>"

definition add_camera_pose :: "scene \<Rightarrow> matrix \<Rightarrow> int option \<Rightarrow> scene \<times> int" where
  "add_camera_pose s cam2world_matrix frame_arg =
     (let s1 = s\<lparr>matrix_world := cam2world_matrix\<rparr>;
          frame = (case frame_arg of None \<Rightarrow> frame_end s1 | Some f \<Rightarrow> f);
          s2 = (if frame_end s1 < frame + 1 then s1\<lparr>frame_end := frame + 1\<rparr> else s1);
          s3 = keyframe_insert s2 ''location'' frame;
          s4 = keyframe_insert s3 ''rotation_euler'' frame
      in (s4, frame))"

subsection \<open>set_intrinsics_from_blender_params (lines 51-95)\<close>

definition set_intrinsics_from_blender_params ::
  "scene \<Rightarrow> real \<Rightarrow> int \<Rightarrow> int \<Rightarrow> real \<Rightarrow> real \<Rightarrow> real \<Rightarrow> real \<Rightarrow> real \<Rightarrow> real \<Rightarrow> string
     \<Rightarrow> scene raises" where
  "set_intrinsics_from_blender_params s lens' image_width image_height clip_start' clip_end'
       pixel_aspect_x' pixel_aspect_y' shift_x' shift_y' lens_unit' =
     (let finish = (\<lambda>s1.
            let s2 = s1\<lparr>resolution_x := image_width, resolution_y := image_height\<rparr>;
                s3 = s2\<lparr>cam := (cam s2)\<lparr>clip_start := clip_start', clip_end := clip_end'\<rparr>\<rparr>;
                s4 = s3\<lparr>pixel_aspect_x := pixel_aspect_x', pixel_aspect_y := pixel_aspect_y'\<rparr>
            in s4\<lparr>cam := (cam s4)\<lparr>shift_x := shift_x', shift_y := shift_y'\<rparr>\<rparr>)
      in if lens_unit' = ''MILLIMETERS'' then
           (let s1 = s\<lparr>cam := (cam s)\<lparr>lens_unit := lens_unit'\<rparr>\<rparr>
            in if lens' < 1 then Inl (FocalLengthBelow1mm lens', s1)
               else Inr (finish (s1\<lparr>cam := (cam s1)\<lparr>lens := lens'\<rparr>\<rparr>)))
         else if lens_unit' = ''FOV'' then
           Inr (finish (s\<lparr>cam := (cam s)\<lparr>lens_unit := lens_unit', angle := lens'\<rparr>\<rparr>))
         else Inl (NoSuchLensUnit lens_unit', s))"

subsection \<open>get_sensor_size, get_view_fac_in_px (lines 161-201)\<close>

definition get_sensor_size :: "camera \<Rightarrow> real" where
  "get_sensor_size c =
     (if sensor_fit c = ''VERTICAL'' then sensor_height c else sensor_width c)"

definition get_view_fac_in_px :: "camera \<Rightarrow> real \<Rightarrow> real \<Rightarrow> int \<Rightarrow> int \<Rightarrow> error + real" where
  "get_view_fac_in_px c pixel_aspect_x' pixel_aspect_y' resolution_x_in_px resolution_y_in_px =
     (let sensor_fit' =
            (if sensor_fit c = ''AUTO'' then
               (if pixel_aspect_x' * of_int resolution_x_in_px
                     \<ge> pixel_aspect_y' * of_int resolution_y_in_px
                then ''HORIZONTAL'' else ''VERTICAL'')
             else sensor_fit c)
      in if pixel_aspect_x' = 0 then Inl ZeroDivisionError
         else
           (let pixel_aspect_ratio = pixel_aspect_y' / pixel_aspect_x'
            in if sensor_fit' = ''HORIZONTAL'' then Inr (of_int resolution_x_in_px)
               else Inr (pixel_aspect_ratio * of_int resolution_y_in_px)))"

subsection \<open>set_intrinsics_from_K_matrix (lines 113-159)\<close>

text \<open>
  Every division is Python's on floats: a zero divisor raises \<^verbatim>\<open>ZeroDivisionError\<close>.
  All of them stand before the first assignment to the scene.
\<close>

definition set_intrinsics_from_K_matrix ::
  "scene \<Rightarrow> mat3 \<Rightarrow> int \<Rightarrow> int \<Rightarrow> real \<Rightarrow> real \<Rightarrow> scene raises" where
  "set_intrinsics_from_K_matrix s K image_width image_height clip_start' clip_end' =
     (let fx = m00 K; fy = m11 K; cx = m02 K; cy = m12 K
      in if fx > fy \<and> fy = 0 then Inl (ZeroDivisionError, s)
         else if \<not> fx > fy \<and> fx < fy \<and> fx = 0 then Inl (ZeroDivisionError, s)
         else
           (let pixel_aspect_y' = (if fx > fy then fx / fy else 1);
                pixel_aspect_x' = (if fx > fy then 1 else if fx < fy then fy / fx else 1)
            in if pixel_aspect_x' = 0 then Inl (ZeroDivisionError, s)
               else
                 (let pixel_aspect_ratio = pixel_aspect_y' / pixel_aspect_x'
                  in case get_view_fac_in_px (cam s) pixel_aspect_x' pixel_aspect_y'
                            image_width image_height of
                       Inl e \<Rightarrow> Inl (e, s)
                     | Inr view_fac_in_px \<Rightarrow>
                         (let sensor_size_in_mm = get_sensor_size (cam s)
                          in if view_fac_in_px = 0 then Inl (ZeroDivisionError, s)
                             else
                               (let f_in_mm = fx * sensor_size_in_mm / view_fac_in_px;
                                    shift_x' = (cx - (of_int image_width - 1) / 2)
                                                 / - view_fac_in_px;
                                    shift_y' = (cy - (of_int image_height - 1) / 2)
                                                 / view_fac_in_px * pixel_aspect_ratio
                                in set_intrinsics_from_blender_params s f_in_mm
                                     image_width image_height clip_start' clip_end'
                                     pixel_aspect_x' pixel_aspect_y' shift_x' shift_y'
                                     ''MILLIMETERS'')))))"

subsection \<open>get_intrinsics_as_K_matrix (lines 203-235)\<close>

definition get_intrinsics_as_K_matrix :: "scene \<Rightarrow> error + mat3" where
  "get_intrinsics_as_K_matrix s =
     (let f_in_mm = lens (cam s);
          resolution_x_in_px = resolution_x s;
          resolution_y_in_px = resolution_y s
      in if pixel_aspect_x s = 0 then Inl ZeroDivisionError
         else
           (let pixel_aspect_ratio = pixel_aspect_y s / pixel_aspect_x s
            in case get_view_fac_in_px (cam s) (pixel_aspect_x s) (pixel_aspect_y s)
                      resolution_x_in_px resolution_y_in_px of
                 Inl e \<Rightarrow> Inl e
               | Inr view_fac_in_px \<Rightarrow>
                   (let sensor_size_in_mm = get_sensor_size (cam s)
                    in if sensor_size_in_mm = 0 then Inl ZeroDivisionError
                       else
                         (let fx = f_in_mm / sensor_size_in_mm * view_fac_in_px
                          in if pixel_aspect_ratio = 0 then Inl ZeroDivisionError
                             else
                               (let fy = fx / pixel_aspect_ratio;
                                    cx = (of_int resolution_x_in_px - 1) / 2
                                           - shift_x (cam s) * view_fac_in_px;
                                    cy = (of_int resolution_y_in_px - 1) / 2
                                           + shift_y (cam s) * view_fac_in_px / pixel_aspect_ratio
                                in Inr \<lparr>m00 = fx, m01 = 0, m02 = cx,
                                        m10 = 0, m11 = fy, m12 = cy,
                                        m20 = 0, m21 = 0, m22 = 1\<rparr>)))))"

text \<open>The K matrix of the docstring: \<open>[[fx, 0, cx], [0, fy, cy], [0, 0, 1]]\<close>.\<close>

definition K_matrix :: "real \<Rightarrow> real \<Rightarrow> real \<Rightarrow> real \<Rightarrow> mat3" where
  "K_matrix fx fy cx cy =
     \<lparr>m00 = fx, m01 = 0, m02 = cx, m10 = 0, m11 = fy, m12 = cy, m20 = 0, m21 = 0, m22 = 1\<rparr>"

subsection \<open>get_fov (lines 237-251)\<close>

text \<open>
  \<^verbatim>\<open>K\<close> is a numpy array here, so the division by \<^verbatim>\<open>K[0, 0]\<close> is numpy's: a zero divisor
  gives an infinity or NaN and no exception. The values numpy can return are the
  constructors of \<open>np_float\<close>.
\<close>

datatype np_float = Finite real | PosInf | NegInf | NaN

definition np_true_divide :: "real \<Rightarrow> real \<Rightarrow> np_float" where
  "np_true_divide a b =
     (if b \<noteq> 0 then Finite (a / b)
      else if a > 0 then PosInf else if a < 0 then NegInf else NaN)"

fun np_arctan :: "np_float \<Rightarrow> np_float" where
  "np_arctan (Finite x) = Finite (arctan x)"
| "np_arctan PosInf = Finite (pi / 2)"
| "np_arctan NegInf = Finite (- (pi / 2))"
| "np_arctan NaN = NaN"

fun np_times2 :: "np_float \<Rightarrow> np_float" where
  "np_times2 (Finite x) = Finite (2 * x)"
| "np_times2 v = v"

definition get_fov :: "scene \<Rightarrow> error + (np_float \<times> np_float)" where
  "get_fov s =
     (case get_intrinsics_as_K_matrix s of
        Inl e \<Rightarrow> Inl e
      | Inr K \<Rightarrow>
          (let fov_x = np_times2 (np_arctan (np_true_divide (of_int (resolution_x s) / 2) (m00 K)));
               fov_y = np_times2 (np_arctan (np_true_divide (of_int (resolution_y s) / 2) (m11 K)))
           in Inr (fov_x, fov_y)))"

subsection \<open>add_depth_of_field (lines 253-294)\<close>

definition add_depth_of_field ::
  "camera \<Rightarrow> object option \<Rightarrow> real \<Rightarrow> int \<Rightarrow> real \<Rightarrow> real \<Rightarrow> real \<Rightarrow> camera raises" where
  "add_depth_of_field camera' focal_point_obj fstop_value aperture_blades' aperture_rotation'
       aperture_ratio' focal_distance =
     (let c1 = camera'\<lparr>dof := (dof camera')\<lparr>use_dof := True\<rparr>\<rparr>;
          finish = (\<lambda>c. c\<lparr>dof := (dof c)\<lparr>aperture_fstop := fstop_value,
                                          aperture_blades := aperture_blades',
                                          aperture_rotation := aperture_rotation',
                                          aperture_ratio := aperture_ratio'\<rparr>\<rparr>)
      in case focal_point_obj of
           Some obj \<Rightarrow> Inr (finish (c1\<lparr>dof := (dof c1)\<lparr>focus_object := Some obj\<rparr>\<rparr>))
         | None \<Rightarrow>
             if focal_distance \<ge> 0 then
               Inr (finish (c1\<lparr>dof := (dof c1)\<lparr>focus_distance := focal_distance\<rparr>\<rparr>))
             else Inl (RuntimeError, c1))"

subsection \<open>set_lens_distortion (lines 296-396)\<close>

text \<open>
  numpy arrays over the pixels are lists, one entry per pixel in row-major order; an
  elementwise operation is a \<open>map\<close> or \<open>map2\<close>. The reductions \<^verbatim>\<open>np.max\<close> and \<^verbatim>\<open>np.min\<close>
  raise \<^verbatim>\<open>ValueError\<close> on an array with no element.
\<close>

definition np_max :: "real list \<Rightarrow> error + real" where
  "np_max a = (case a of [] \<Rightarrow> Inl ValueError | v # r \<Rightarrow> Inr (fold max r v))"

definition np_min :: "real list \<Rightarrow> error + real" where
  "np_min a = (case a of [] \<Rightarrow> Inl ValueError | v # r \<Rightarrow> Inr (fold min r v))"

definition np_hypot :: "real \<Rightarrow> real \<Rightarrow> real" where
  "np_hypot a b = sqrt (a\<^sup>2 + b\<^sup>2)"

text \<open>
  \<^verbatim>\<open>np.linalg.inv\<close> of a 3 x 3 matrix, in exact arithmetic the adjugate over the
  determinant; a singular matrix raises \<^verbatim>\<open>LinAlgError\<close>, a subclass of \<^verbatim>\<open>ValueError\<close>.
\<close>

definition np_linalg_inv :: "mat3 \<Rightarrow> error + mat3" where
  "np_linalg_inv A =
     (let det = m00 A * (m11 A * m22 A - m12 A * m21 A)
                - m01 A * (m10 A * m22 A - m12 A * m20 A)
                + m02 A * (m10 A * m21 A - m11 A * m20 A)
      in if det = 0 then Inl ValueError
         else Inr \<lparr>m00 = (m11 A * m22 A - m12 A * m21 A) / det,
                   m01 = (m02 A * m21 A - m01 A * m22 A) / det,
                   m02 = (m01 A * m12 A - m02 A * m11 A) / det,
                   m10 = (m12 A * m20 A - m10 A * m22 A) / det,
                   m11 = (m00 A * m22 A - m02 A * m20 A) / det,
                   m12 = (m02 A * m10 A - m00 A * m12 A) / det,
                   m20 = (m10 A * m21 A - m11 A * m20 A) / det,
                   m21 = (m01 A * m20 A - m00 A * m21 A) / det,
                   m22 = (m00 A * m11 A - m01 A * m10 A) / det\<rparr>)"

text \<open>The values the loop reads and never changes, and the variables it updates.\<close>

record distortion_ctx =
  coeff_k1 :: real
  coeff_k2 :: real
  coeff_k3 :: real
  coeff_p1 :: real
  coeff_p2 :: real
  K_fx :: real
  K_fy :: real
  P_und_x :: "real list"    \<comment> \<open>\<^verbatim>\<open>P_und[0, :]\<close>\<close>
  P_und_y :: "real list"    \<comment> \<open>\<^verbatim>\<open>P_und[1, :]\<close>\<close>

record solver_state =
  sol_x :: "real list"
  sol_y :: "real list"
  sol_res :: "real list"
  sol_it :: nat
  sol_factor :: real

text \<open>Lines 332-335 at one pixel: the distortion model applied to \<open>(x, y)\<close>.\<close>

definition distort_x :: "distortion_ctx \<Rightarrow> real \<Rightarrow> real \<Rightarrow> real" where
  "distort_x c x y =
     (let r2 = x\<^sup>2 + y\<^sup>2;
          radial_part = 1 + coeff_k1 c * r2 + coeff_k2 c * r2 * r2 + coeff_k3 c * r2 * r2 * r2
      in x * radial_part + 2 * coeff_p2 c * x * y + coeff_p1 c * (r2 + 2 * x\<^sup>2))"

definition distort_y :: "distortion_ctx \<Rightarrow> real \<Rightarrow> real \<Rightarrow> real" where
  "distort_y c x y =
     (let r2 = x\<^sup>2 + y\<^sup>2;
          radial_part = 1 + coeff_k1 c * r2 + coeff_k2 c * r2 * r2 + coeff_k3 c * r2 * r2 * r2
      in y * radial_part + 2 * coeff_p1 c * x * y + coeff_p2 c * (r2 + 2 * y\<^sup>2))"

text \<open>
  Lines 334-337: the largest residual, in pixels, of the iterate \<open>(x, y)\<close>; \<open>x_dist\<close> and
  \<open>y_dist\<close> are the source's \<^verbatim>\<open>x_\<close> and \<^verbatim>\<open>y_\<close>.
\<close>

definition max_residual :: "distortion_ctx \<Rightarrow> real list \<Rightarrow> real list \<Rightarrow> error + real" where
  "max_residual c x y =
     (let x_dist = map2 (distort_x c) x y;
          y_dist = map2 (distort_y c) x y
      in np_max (map2 np_hypot
                   (map2 (\<lambda>a p. K_fx c * (a - p)) x_dist (P_und_x c))
                   (map2 (\<lambda>b p. K_fy c * (b - p)) y_dist (P_und_y c))))"

text \<open>Lines 352-353: the update of the iterate.\<close>

definition update_x :: "distortion_ctx \<Rightarrow> real \<Rightarrow> real list \<Rightarrow> real list \<Rightarrow> real list" where
  "update_x c factor x y =
     map2 (\<lambda>xi d. xi - d * factor) x (map2 (\<lambda>a p. a - p) (map2 (distort_x c) x y) (P_und_x c))"

definition update_y :: "distortion_ctx \<Rightarrow> real \<Rightarrow> real list \<Rightarrow> real list \<Rightarrow> real list" where
  "update_y c factor x y =
     map2 (\<lambda>yi d. yi - d * factor) y (map2 (\<lambda>b p. b - p) (map2 (distort_y c) x y) (P_und_y c))"

text \<open>
  One pass through the body of the \<^verbatim>\<open>while\<close> (lines 332-353). A raise leaves \<^verbatim>\<open>res\<close>,
  \<^verbatim>\<open>it\<close> and \<^verbatim>\<open>factor\<close> as they are at that line.
\<close>

definition loop_body :: "distortion_ctx \<Rightarrow> solver_state \<Rightarrow> solver_state raises" where
  "loop_body c st =
     (case max_residual c (sol_x st) (sol_y st) of
        Inl e \<Rightarrow> Inl (e, st)
      | Inr err \<Rightarrow>
          (let st1 = st\<lparr>sol_res := sol_res st @ [err], sol_it := sol_it st + 1\<rparr>;
               stalled = (sol_it st1 > 1
                            \<and> last (sol_res st1) > last (butlast (sol_res st1)) * (999 / 1000));
               st2 = (if stalled then st1\<lparr>sol_factor := sol_factor st1 * (1 / 2)\<rparr> else st1)
           in if stalled \<and> sol_it st2 > 1000 then Inl (DistortionStalled, st2)
              else if stalled \<and> err > 1000000000 then Inl (DistortionUnstable, st2)
              else Inr (st2\<lparr>sol_x := update_x c (sol_factor st2) (sol_x st) (sol_y st),
                             sol_y := update_y c (sol_factor st2) (sol_x st) (sol_y st)\<rparr>)))"

text \<open>
  The \<^verbatim>\<open>while res[-1] > 0.2\<close> loop. Nothing in its text bounds the number of passes, so
  the model is a partial function: \<open>None\<close> is a loop that never ends.
\<close>

partial_function (option) distortion_loop ::
  "distortion_ctx \<Rightarrow> solver_state \<Rightarrow> (solver_state raises) option" where
  "distortion_loop c st =
     (if last (sol_res st) > 1 / 5 then
        (case loop_body c st of
           Inl e \<Rightarrow> Some (Inl e)
         | Inr st' \<Rightarrow> distortion_loop c st')
      else Some (Inr st))"

text \<open>
  Lines 319-320: \<^verbatim>\<open>row = np.repeat(np.arange(0, ry), rx)\<close> and
  \<^verbatim>\<open>column = np.tile(np.arange(0, rx), ry)\<close>, the pixel coordinates in row-major order.
\<close>

definition pixel_rows :: "int \<Rightarrow> int \<Rightarrow> real list" where
  "pixel_rows ry rx = concat (map (\<lambda>r. replicate (nat rx) (of_nat r)) [0..<nat ry])"

definition pixel_columns :: "int \<Rightarrow> int \<Rightarrow> real list" where
  "pixel_columns ry rx = concat (replicate (nat ry) (map of_nat [0..<nat rx]))"

text \<open>
  Lines 307-330, up to the loop: the K matrix, the undistorted projections \<open>P_und\<close> and
  the first iterate. A negative resolution makes numpy raise \<^verbatim>\<open>ValueError\<close> while it
  builds the arrays.
\<close>

definition distortion_setup ::
  "scene \<Rightarrow> real \<Rightarrow> real \<Rightarrow> real \<Rightarrow> real \<Rightarrow> real
     \<Rightarrow> error + (mat3 \<times> distortion_ctx \<times> solver_state)" where
  "distortion_setup s k1 k2 k3 p1 p2 =
     (case get_intrinsics_as_K_matrix s of
        Inl e \<Rightarrow> Inl e
      | Inr camera_K_matrix \<Rightarrow>
          (let desired_dis_res = (resolution_y s, resolution_x s)
           in if fst desired_dis_res < 0 \<or> snd desired_dis_res < 0 then Inl ValueError
              else
                (let row = pixel_rows (fst desired_dis_res) (snd desired_dis_res);
                     column = pixel_columns (fst desired_dis_res) (snd desired_dis_res)
                 in case np_linalg_inv camera_K_matrix of
                      Inl e \<Rightarrow> Inl e
                    | Inr Kinv \<Rightarrow>
                        (let Px = map2 (\<lambda>col r. m00 Kinv * col + m01 Kinv * r + m02 Kinv * 1)
                                    column row;
                             Py = map2 (\<lambda>col r. m10 Kinv * col + m11 Kinv * r + m12 Kinv * 1)
                                    column row
                         in Inr (camera_K_matrix,
                                 \<lparr>coeff_k1 = k1, coeff_k2 = k2, coeff_k3 = k3,
                                  coeff_p1 = p1, coeff_p2 = p2,
                                  K_fx = m00 camera_K_matrix, K_fy = m11 camera_K_matrix,
                                  P_und_x = Px, P_und_y = Py\<rparr>,
                                 \<lparr>sol_x = Px, sol_y = Py, sol_res = [1000], sol_it = 0,
                                  sol_factor = 1\<rparr>)))))"

text \<open>
  Modelled from the spec: \<^verbatim>\<open>GlobalStorage.set\<close> (module \<^verbatim>\<open>src.main.GlobalStorage\<close>, not
  among the sources) writes a value under a key of the "small global key-value store".
\<close>

definition GlobalStorage_set :: "scene \<Rightarrow> string \<Rightarrow> lens_distortion_data \<Rightarrow> scene" where
  "GlobalStorage_set s key v = s\<lparr>global_storage := (global_storage s)(key \<mapsto> v)\<rparr>"

text \<open>
  \<^verbatim>\<open>np.sign(t) * np.ceil(np.abs(t))\<close>: a float with an integer value, which becomes a
  resolution; the model keeps it as an \<open>int\<close>.
\<close>

definition sign_ceil :: "real \<Rightarrow> int" where
  "sign_ceil t = (if t < 0 then - 1 else if t = 0 then 0 else 1) * \<lceil>\<bar>t\<bar>\<rceil>"

text \<open>Lines 355-396, after the loop.\<close>

definition distortion_finish :: "scene \<Rightarrow> int \<times> int \<Rightarrow> mat3 \<Rightarrow> solver_state \<Rightarrow> scene raises" where
  "distortion_finish s original_image_resolution camera_K_matrix st =
     (let fx = m00 camera_K_matrix; fy = m11 camera_K_matrix;
          cx = m02 camera_K_matrix; cy = m12 camera_K_matrix;
          u = map (\<lambda>x. fx * x + cx) (sol_x st);
          v = map (\<lambda>y. fy * y + cy) (sol_y st)
      in case np_min u of Inl e \<Rightarrow> Inl (e, s) | Inr min_u \<Rightarrow>
        (case np_max u of Inl e \<Rightarrow> Inl (e, s) | Inr max_u \<Rightarrow>
        (case np_min v of Inl e \<Rightarrow> Inl (e, s) | Inr min_v \<Rightarrow>
        (case np_max v of Inl e \<Rightarrow> Inl (e, s) | Inr max_v \<Rightarrow>
           (let min_und_column_needed = sign_ceil min_u;
                max_und_column_needed = sign_ceil max_u;
                min_und_row_needed = sign_ceil min_v;
                max_und_row_needed = sign_ceil max_v;
                columns_needed = max_und_column_needed - (min_und_column_needed - 1);
                rows_needed = max_und_row_needed - (min_und_row_needed - 1);
                cx_new = cx - (of_int min_und_column_needed - 1) + 1;
                cy_new = cy - (of_int min_und_row_needed - 1) + 1;
                new_image_resolution = (columns_needed + 2, rows_needed + 2);
                mapping = [map (\<lambda>a. a + (cy_new - cy)) v, map (\<lambda>a. a + (cx_new - cx)) u]
            in case get_intrinsics_as_K_matrix s of
                 Inl e \<Rightarrow> Inl (e, s)
               | Inr K2 \<Rightarrow>
                   (let camera_changed_K_matrix = K2\<lparr>m02 := cx_new, m12 := cy_new\<rparr>;
                        clip_start' = clip_start (cam s);
                        clip_end' = clip_end (cam s)
                    in case set_intrinsics_from_K_matrix s camera_changed_K_matrix
                              (fst new_image_resolution) (snd new_image_resolution)
                              clip_start' clip_end' of
                         Inl e \<Rightarrow> Inl e
                       | Inr s1 \<Rightarrow>
                           Inr (GlobalStorage_set s1 ''_lens_distortion_is_used''
                                  \<lparr>mapping_coords = mapping,
                                   original_image_res = original_image_resolution\<rparr>)))))))"

definition set_lens_distortion ::
  "scene \<Rightarrow> real \<Rightarrow> real \<Rightarrow> real \<Rightarrow> real \<Rightarrow> real \<Rightarrow> (scene raises) option" where
  "set_lens_distortion s k1 k2 k3 p1 p2 =
     (let original_image_resolution = (resolution_y s, resolution_x s)
      in case distortion_setup s k1 k2 k3 p1 p2 of
           Inl e \<Rightarrow> Some (Inl (e, s))
         | Inr (camera_K_matrix, c, st0) \<Rightarrow>
             (case distortion_loop c st0 of
                None \<Rightarrow> None
              | Some (Inl (e, st)) \<Rightarrow> Some (Inl (e, s))
              | Some (Inr st) \<Rightarrow>
                  Some (distortion_finish s original_image_resolution camera_K_matrix st)))"

subsection \<open>Invariants of the loop and the residual history\<close>


text \<open>
  The list \<^verbatim>\<open>res\<close> as the loop leaves it, on a return and on a raise: entry \<open>i\<close>, for
  \<open>i \<ge> 1\<close>, is the residual computed in pass \<open>i\<close>.
\<close>

definition history :: "solver_state raises \<Rightarrow> real list" where
  "history r = (case r of Inl (e, st) \<Rightarrow> sol_res st | Inr st \<Rightarrow> sol_res st)"

text \<open>
  The test of lines 343-349 at pass \<open>i\<close>: the residual is above 0.999 times the one before
  it, and either more than 1000 passes have run or the residual is above 1e9.
\<close>

definition diverged_at :: "real list \<Rightarrow> nat \<Rightarrow> bool" where
  "diverged_at res i \<longleftrightarrow>
     1 < i \<and> i < length res \<and> res ! (i - 1) * (999 / 1000) < res ! i
     \<and> (1000 < i \<or> 1000000000 < res ! i)"

definition solver_raised :: "solver_state raises \<Rightarrow> bool" where
  "solver_raised r \<longleftrightarrow>
     (case r of
        Inl (e, st) \<Rightarrow> e = DistortionStalled \<or> e = DistortionUnstable
      | Inr st \<Rightarrow> False)"

subsection \<open>Example scenes\<close>

text \<open>
  A camera with a 36 x 24 mm sensor and a 36 mm lens, rendering one pixel; with the
  shift \<open>sx\<close> the only pixel projects to \<open>P_und = (sx, 0)\<close>.
\<close>

definition example_camera :: camera where
  "example_camera =
     \<lparr>lens_unit = ''MILLIMETERS'', lens = 36, angle = 0, sensor_fit = ''AUTO'',
      sensor_width = 36, sensor_height = 24, clip_start = 1 / 10, clip_end = 1000,
      shift_x = 0, shift_y = 0,
      dof = \<lparr>use_dof = False, focus_object = None, focus_distance = 10, aperture_fstop = 2,
             aperture_blades = 0, aperture_rotation = 0, aperture_ratio = 1\<rparr>\<rparr>"

definition example_scene :: scene where
  "example_scene =
     \<lparr>cam = example_camera, matrix_world = [], keyframes = Map.empty, frame_end = 0,
      resolution_x = 1, resolution_y = 1, pixel_aspect_x = 1, pixel_aspect_y = 1,
      global_storage = Map.empty\<rparr>"

definition shifted_scene :: "real \<Rightarrow> scene" where
  "shifted_scene sx = example_scene\<lparr>cam := example_camera\<lparr>shift_x := sx\<rparr>\<rparr>"

definition identity_pose :: matrix where
  "identity_pose = [[1, 0, 0, 0], [0, 1, 0, 0], [0, 0, 1, 0], [0, 0, 0, 1]]"

text \<open>The loop's constants and first iterate for \<open>shifted_scene sx\<close>.\<close>

definition example_ctx :: "real \<Rightarrow> real \<Rightarrow> real \<Rightarrow> distortion_ctx" where
  "example_ctx sx k1 p1 =
     \<lparr>coeff_k1 = k1, coeff_k2 = 0, coeff_k3 = 0, coeff_p1 = p1, coeff_p2 = 0,
      K_fx = 1, K_fy = 1, P_und_x = [sx], P_und_y = [0]\<rparr>"

definition example_init :: "real \<Rightarrow> solver_state" where
  "example_init sx = \<lparr>sol_x = [sx], sol_y = [0], sol_res = [1000], sol_it = 0, sol_factor = 1\<rparr>"

section \<open>Intrinsics\<close>

lemma K_matrix_sel:
  "m00 (K_matrix fx fy cx cy) = fx" "m11 (K_matrix fx fy cx cy) = fy"
  "m02 (K_matrix fx fy cx cy) = cx" "m12 (K_matrix fx fy cx cy) = cy"
  by (simp_all add: K_matrix_def)

lemma get_view_fac_in_px_sensor_fit:
  "sensor_fit c' = sensor_fit c \<Longrightarrow>
   get_view_fac_in_px c' pax pay w h = get_view_fac_in_px c pax pay w h"
  by (simp add: get_view_fac_in_px_def)

text \<open>What a call of \<open>set_intrinsics_from_K_matrix\<close> that returns has written.\<close>

lemma set_K_succeeds_D:
  assumes "set_intrinsics_from_K_matrix s K w h cs ce = Inr s'"
  shows "\<exists>pax pay vf.
           pax = (if m00 K > m11 K then 1 else if m00 K < m11 K then m11 K / m00 K else 1) \<and>
           pay = (if m00 K > m11 K then m00 K / m11 K else 1) \<and>
           pax \<noteq> 0 \<and>
           get_view_fac_in_px (cam s) pax pay w h = Inr vf \<and> vf \<noteq> 0 \<and>
           1 \<le> m00 K * get_sensor_size (cam s) / vf \<and>
           s' = s\<lparr>cam := (cam s)\<lparr>lens_unit := ''MILLIMETERS'',
                                 lens := m00 K * get_sensor_size (cam s) / vf,
                                 clip_start := cs, clip_end := ce,
                                 shift_x := (m02 K - (of_int w - 1) / 2) / - vf,
                                 shift_y := (m12 K - (of_int h - 1) / 2) / vf * (pay / pax)\<rparr>,
                   resolution_x := w, resolution_y := h,
                   pixel_aspect_x := pax, pixel_aspect_y := pay\<rparr>"
  using assms
  by (auto simp: set_intrinsics_from_K_matrix_def set_intrinsics_from_blender_params_def Let_def
           split: if_splits sum.splits)

lemmas scene_eval =
  example_scene_def example_camera_def shifted_scene_def K_matrix_def
  get_view_fac_in_px_def get_sensor_size_def Let_def

lemma example_set_K:
  "set_intrinsics_from_K_matrix example_scene (K_matrix 2 3 1 1) 4 4 (1 / 10) 1000
   = Inr (example_scene
            \<lparr>cam := example_camera\<lparr>lens := 18, shift_x := 1 / 8, shift_y := - (1 / 12)\<rparr>,
             resolution_x := 4, resolution_y := 4, pixel_aspect_x := 3 / 2\<rparr>)"
  by (simp add: set_intrinsics_from_K_matrix_def set_intrinsics_from_blender_params_def
        scene_eval)

text \<open>
  C1. For a K matrix \<open>[[fx, 0, cx], [0, fy, cy], [0, 0, 1]]\<close> with \<open>fx > 0\<close> and \<open>fy > 0\<close>
  and a positive image width and height: when \<open>set_intrinsics_from_K_matrix\<close> returns
  without raising, \<open>get_intrinsics_as_K_matrix\<close> on the scene it leaves returns the same
  \<open>fx\<close>, \<open>fy\<close>, \<open>cx\<close> and \<open>cy\<close>, in exact real arithmetic; the sensor size and the sensor
  fit are not touched by the call.
\<close>

theorem K_matrix_roundtrip:
  assumes fx: "0 < fx" and fy: "0 < fy" and w: "0 < image_width" and h: "0 < image_height"
    and ok: "set_intrinsics_from_K_matrix s (K_matrix fx fy cx cy) image_width image_height
               clip_start' clip_end' = Inr s'"
  shows "get_intrinsics_as_K_matrix s' = Inr (K_matrix fx fy cx cy)
         \<and> sensor_fit (cam s') = sensor_fit (cam s)
         \<and> sensor_width (cam s') = sensor_width (cam s)
         \<and> sensor_height (cam s') = sensor_height (cam s)"
proof -
  define pax where "pax = (if fx > fy then 1 else if fx < fy then fy / fx else 1)"
  define pay where "pay = (if fx > fy then fx / fy else 1)"
  define sz where "sz = get_sensor_size (cam s)"
  note D = set_K_succeeds_D [OF ok, unfolded K_matrix_sel, folded pax_def pay_def sz_def]
  from D obtain vf where vf: "get_view_fac_in_px (cam s) pax pay image_width image_height = Inr vf"
    and vf0: "vf \<noteq> 0" and f1: "1 \<le> fx * sz / vf"
    and s': "s' = s\<lparr>cam := (cam s)\<lparr>lens_unit := ''MILLIMETERS'',
                                 lens := fx * sz / vf,
                                 clip_start := clip_start', clip_end := clip_end',
                                 shift_x := (cx - (of_int image_width - 1) / 2) / - vf,
                                 shift_y := (cy - (of_int image_height - 1) / 2) / vf * (pay / pax)\<rparr>,
                   resolution_x := image_width, resolution_y := image_height,
                   pixel_aspect_x := pax, pixel_aspect_y := pay\<rparr>"
    by blast
  have pax0: "pax \<noteq> 0" and pay0: "pay \<noteq> 0"
    using fx fy by (auto simp: pax_def pay_def)
  have sz0: "sz \<noteq> 0"
    using f1 by auto
  have ratio: "fx / (pay / pax) = fy"
    using fx fy by (auto simp: pax_def pay_def)
  have fit: "sensor_fit (cam s') = sensor_fit (cam s)"
    by (simp add: s')
  have vf': "get_view_fac_in_px (cam s') pax pay image_width image_height = Inr vf"
    using vf by (simp only: get_view_fac_in_px_sensor_fit [OF fit])
  have sz': "get_sensor_size (cam s') = sz"
    by (simp add: s' sz_def get_sensor_size_def)
  have fx': "fx * sz / vf / sz * vf = fx"
    using sz0 vf0 by simp
  have cx': "(of_int image_width - 1) / 2 - (cx - (of_int image_width - 1) / 2) / - vf * vf = cx"
    using vf0 by simp
  have cy': "(of_int image_height - 1) / 2
               + (cy - (of_int image_height - 1) / 2) / vf * (pay / pax) * vf / (pay / pax) = cy"
    using vf0 pax0 pay0 by simp
  have "get_intrinsics_as_K_matrix s' = Inr (K_matrix fx fy cx cy)"
    unfolding get_intrinsics_as_K_matrix_def Let_def
    using vf' sz' sz0 pax0 pay0 fx' ratio cx' cy'
    by (simp add: s' K_matrix_def)
  then show ?thesis by (simp add: s')
qed

theorem K_matrix_roundtrip_witness:
  "(0 :: real) < 2 \<and> (0 :: real) < 3 \<and> (0 :: int) < 4
   \<and> \<not> isl (set_intrinsics_from_K_matrix example_scene (K_matrix 2 3 1 1) 4 4 (1 / 10) 1000)
   \<and> get_intrinsics_as_K_matrix
        (projr (set_intrinsics_from_K_matrix example_scene (K_matrix 2 3 1 1) 4 4 (1 / 10) 1000))
       = Inr (K_matrix 2 3 1 1)"
  using K_matrix_roundtrip [OF _ _ _ _ example_set_K]
  by (simp add: example_set_K)

text \<open>
  C2. \<open>set_intrinsics_from_blender_params\<close> raises exactly when the lens unit is
  \<^verbatim>\<open>MILLIMETERS\<close> and the lens is below 1, or the lens unit is neither \<^verbatim>\<open>MILLIMETERS\<close>
  nor \<^verbatim>\<open>FOV\<close>; on every other input it returns.
\<close>

theorem blender_params_raises_iff:
  "isl (set_intrinsics_from_blender_params s lens' w h cs ce pax pay sx sy unit) \<longleftrightarrow>
     (unit = ''MILLIMETERS'' \<and> lens' < 1) \<or> (unit \<noteq> ''MILLIMETERS'' \<and> unit \<noteq> ''FOV'')"
  by (simp add: set_intrinsics_from_blender_params_def Let_def)

theorem blender_params_raises_iff_witness:
  "isl (set_intrinsics_from_blender_params example_scene (1 / 2) 4 4 (1 / 10) 1000 1 1 0 0
          ''MILLIMETERS'')
   \<and> isl (set_intrinsics_from_blender_params example_scene 1 4 4 (1 / 10) 1000 1 1 0 0
            ''DEGREES'')
   \<and> \<not> isl (set_intrinsics_from_blender_params example_scene (1 / 2) 4 4 (1 / 10) 1000 1 1 0 0
              ''FOV'')
   \<and> \<not> isl (set_intrinsics_from_blender_params example_scene 35 4 4 (1 / 10) 1000 1 1 0 0
              ''MILLIMETERS'')"
  by (simp add: blender_params_raises_iff)

text \<open>
  C7. When \<open>get_intrinsics_as_K_matrix\<close> returns a K matrix with \<open>fx > 0\<close> and \<open>fy > 0\<close>,
  \<open>get_fov\<close> returns the pair \<open>(2 arctan (resolution_x / (2 fx)),
  2 arctan (resolution_y / (2 fy)))\<close>.
\<close>

theorem get_fov_formula:
  assumes "get_intrinsics_as_K_matrix s = Inr K" and "0 < m00 K" and "0 < m11 K"
  shows "get_fov s = Inr (Finite (2 * arctan (of_int (resolution_x s) / (2 * m00 K))),
                          Finite (2 * arctan (of_int (resolution_y s) / (2 * m11 K))))"
  using assms by (simp add: get_fov_def np_true_divide_def)

lemma example_K: "get_intrinsics_as_K_matrix example_scene = Inr (K_matrix 1 1 0 0)"
  by (simp add: get_intrinsics_as_K_matrix_def scene_eval)

theorem get_fov_formula_witness:
  "get_intrinsics_as_K_matrix example_scene = Inr (K_matrix 1 1 0 0)
   \<and> (0 :: real) < 1
   \<and> get_fov example_scene = Inr (Finite (2 * arctan (1 / 2)), Finite (2 * arctan (1 / 2)))"
proof -
  from get_fov_formula [OF example_K]
  have "get_fov example_scene = Inr (Finite (2 * arctan (1 / 2)), Finite (2 * arctan (1 / 2)))"
    by (simp add: K_matrix_sel example_scene_def)
  with example_K show ?thesis by simp
qed

text \<open>
  C9, as amended. For a K matrix with \<open>fx > 0\<close> and \<open>fy > 0\<close>, a call of
  \<open>set_intrinsics_from_K_matrix\<close> that returns leaves both pixel aspect ratios at least 1
  and at most one of them above 1: \<open>pixel_aspect_y = fx / fy\<close> and \<open>pixel_aspect_x = 1\<close>
  if \<open>fx > fy\<close>, \<open>pixel_aspect_x = fy / fx\<close> and \<open>pixel_aspect_y = 1\<close> if \<open>fx < fy\<close>, both
  1 if \<open>fx = fy\<close>.
\<close>

theorem pixel_aspect_from_K:
  assumes "0 < m00 K" and "0 < m11 K"
    and "set_intrinsics_from_K_matrix s K image_width image_height clip_start' clip_end' = Inr s'"
  shows "1 \<le> pixel_aspect_x s' \<and> 1 \<le> pixel_aspect_y s'
         \<and> \<not> (1 < pixel_aspect_x s' \<and> 1 < pixel_aspect_y s')
         \<and> (m00 K > m11 K \<longrightarrow> pixel_aspect_y s' = m00 K / m11 K \<and> pixel_aspect_x s' = 1)
         \<and> (m00 K < m11 K \<longrightarrow> pixel_aspect_x s' = m11 K / m00 K \<and> pixel_aspect_y s' = 1)
         \<and> (m00 K = m11 K \<longrightarrow> pixel_aspect_x s' = 1 \<and> pixel_aspect_y s' = 1)"
proof -
  from set_K_succeeds_D [OF assms(3)]
  have pax: "pixel_aspect_x s'
               = (if m00 K > m11 K then 1 else if m00 K < m11 K then m11 K / m00 K else 1)"
    and pay: "pixel_aspect_y s' = (if m00 K > m11 K then m00 K / m11 K else 1)"
    by auto
  show ?thesis
    using assms(1,2) by (auto simp: pax pay)
qed

theorem pixel_aspect_from_K_witness:
  "(0 :: real) < 2 \<and> (0 :: real) < 3
   \<and> pixel_aspect_x
        (projr (set_intrinsics_from_K_matrix example_scene (K_matrix 2 3 1 1) 4 4 (1 / 10) 1000))
       = 3 / 2
   \<and> pixel_aspect_y
        (projr (set_intrinsics_from_K_matrix example_scene (K_matrix 2 3 1 1) 4 4 (1 / 10) 1000))
       = 1"
  using pixel_aspect_from_K [OF _ _ example_set_K]
  by (simp add: example_set_K K_matrix_sel)

text \<open>
  C9, as stated, fails for a negative focal length: with \<open>fx = 2\<close> and \<open>fy = -1\<close> the call
  returns and leaves \<open>pixel_aspect_y = -2\<close>.
\<close>

theorem pixel_aspect_negative_focal:
  "\<not> isl (set_intrinsics_from_K_matrix example_scene (K_matrix 2 (- 1) 0 0) 4 4 (1 / 10) 1000)
   \<and> pixel_aspect_y (projr (set_intrinsics_from_K_matrix example_scene (K_matrix 2 (- 1) 0 0) 4 4
                               (1 / 10) 1000)) = - 2
   \<and> \<not> (1 \<le> (- 2 :: real))"
  by (simp add: set_intrinsics_from_K_matrix_def set_intrinsics_from_blender_params_def
        scene_eval)

section \<open>Camera poses and depth of field\<close>

text \<open>
  C8. The frame \<open>f\<close> that \<open>add_camera_pose\<close> returns satisfies \<open>frame_end \<ge> f + 1\<close> after
  the call; with no frame given, \<open>f\<close> is \<open>frame_end\<close> before the call; the camera's world
  matrix is the given matrix, and location and rotation are keyframed at \<open>f\<close>.
\<close>

theorem add_camera_pose_frame:
  assumes "add_camera_pose s cam2world_matrix frame_arg = (s', f)"
  shows "frame_end s' \<ge> f + 1
         \<and> (frame_arg = None \<longrightarrow> f = frame_end s)
         \<and> matrix_world s' = cam2world_matrix
         \<and> keyframes s' (''location'', f) = Some cam2world_matrix
         \<and> keyframes s' (''rotation_euler'', f) = Some cam2world_matrix"
  using assms
  by (auto simp: add_camera_pose_def keyframe_insert_def Let_def split: option.splits if_splits)

theorem add_camera_pose_frame_witness:
  "snd (add_camera_pose example_scene identity_pose None) = 0
   \<and> frame_end (fst (add_camera_pose example_scene identity_pose None)) = 1
   \<and> matrix_world (fst (add_camera_pose example_scene identity_pose None)) = identity_pose
   \<and> keyframes (fst (add_camera_pose example_scene identity_pose None)) (''location'', 0)
       = Some identity_pose
   \<and> keyframes (fst (add_camera_pose example_scene identity_pose None)) (''rotation_euler'', 0)
       = Some identity_pose"
  using add_camera_pose_frame [OF prod.collapse [symmetric], of example_scene identity_pose None]
  by (simp add: add_camera_pose_def keyframe_insert_def Let_def example_scene_def)

text \<open>
  C10. \<open>add_depth_of_field\<close> raises, and then a \<^verbatim>\<open>RuntimeError\<close>, exactly when no focal
  point object is given and the focal distance is negative. With a focal point object
  the focus object is set and the focus distance is left as it was. Every call that
  returns has enabled \<open>use_dof\<close> and set the f-stop, the blades, the rotation and the
  ratio of the aperture to the arguments.
\<close>

theorem add_depth_of_field_spec:
  "(isl (add_depth_of_field c focal_point_obj fstop_value blades rot ratio focal_distance)
      \<longleftrightarrow> focal_point_obj = None \<and> focal_distance < 0)
   \<and> (isl (add_depth_of_field c focal_point_obj fstop_value blades rot ratio focal_distance)
        \<longrightarrow> fst (projl (add_depth_of_field c focal_point_obj fstop_value blades rot ratio
                          focal_distance)) = RuntimeError)
   \<and> (\<forall>obj. focal_point_obj = Some obj \<longrightarrow>
        (\<exists>c'. add_depth_of_field c focal_point_obj fstop_value blades rot ratio focal_distance
                = Inr c'
              \<and> focus_object (dof c') = Some obj
              \<and> focus_distance (dof c') = focus_distance (dof c)))
   \<and> (\<forall>c'. add_depth_of_field c focal_point_obj fstop_value blades rot ratio focal_distance
               = Inr c' \<longrightarrow>
          use_dof (dof c') \<and> aperture_fstop (dof c') = fstop_value
          \<and> aperture_blades (dof c') = blades \<and> aperture_rotation (dof c') = rot
          \<and> aperture_ratio (dof c') = ratio)"
  by (auto simp: add_depth_of_field_def Let_def split: option.splits)

theorem add_depth_of_field_spec_witness:
  "\<not> isl (add_depth_of_field example_camera (Some ''Empty'') (14 / 5) 6 0 1 (- 1))
   \<and> focus_object (dof (projr (add_depth_of_field example_camera (Some ''Empty'') (14 / 5) 6 0 1
                                  (- 1)))) = Some ''Empty''
   \<and> focus_distance (dof (projr (add_depth_of_field example_camera (Some ''Empty'') (14 / 5) 6 0
                                    1 (- 1)))) = 10
   \<and> use_dof (dof (projr (add_depth_of_field example_camera (Some ''Empty'') (14 / 5) 6 0 1
                             (- 1))))
   \<and> isl (add_depth_of_field example_camera None (14 / 5) 6 0 1 (- 1))"
  using add_depth_of_field_spec [of example_camera "Some ''Empty''" "14 / 5" 6 0 1 "- 1"]
    add_depth_of_field_spec [of example_camera None "14 / 5" 6 0 1 "- 1"]
  by (auto simp: example_camera_def)

section \<open>The distortion solver\<close>

subsection \<open>One pass of the loop\<close>

lemma loop_body_Inr_D:
  assumes "loop_body c st = Inr st'"
  shows "\<exists>err. max_residual c (sol_x st) (sol_y st) = Inr err
           \<and> sol_res st' = sol_res st @ [err]
           \<and> sol_it st' = Suc (sol_it st)
           \<and> sol_x st' = update_x c (sol_factor st') (sol_x st) (sol_y st)
           \<and> sol_y st' = update_y c (sol_factor st') (sol_x st) (sol_y st)
           \<and> (0 < sol_it st \<and> last (sol_res st) * (999 / 1000) < err
                \<longrightarrow> sol_it st < 1000 \<and> err \<le> 1000000000)"
  using assms
  by (auto simp: loop_body_def Let_def split: sum.splits if_splits)

lemma loop_body_Inl_D:
  assumes "loop_body c st = Inl (e, st')"
  shows "(max_residual c (sol_x st) (sol_y st) = Inl e \<and> st' = st)
         \<or> (\<exists>err. max_residual c (sol_x st) (sol_y st) = Inr err
               \<and> sol_res st' = sol_res st @ [err]
               \<and> sol_it st' = Suc (sol_it st)
               \<and> 0 < sol_it st \<and> last (sol_res st) * (999 / 1000) < err
               \<and> (e = DistortionStalled \<and> 1000 \<le> sol_it st
                    \<or> e = DistortionUnstable \<and> sol_it st < 1000 \<and> 1000000000 < err))"
  using assms
  by (auto simp: loop_body_def Let_def split: sum.splits if_splits)

lemma loop_body_measure:
  assumes guard: "1 / 5 < last (sol_res st)" and body: "loop_body c st = Inr st'"
  shows "(st', st) \<in> measures [\<lambda>st. 1001 - sol_it st, \<lambda>st. nat \<lceil>last (sol_res st) * 5000\<rceil>]"
proof -
  from loop_body_Inr_D [OF body] obtain err where
    res: "sol_res st' = sol_res st @ [err]" and it: "sol_it st' = Suc (sol_it st)"
    and chk: "0 < sol_it st \<and> last (sol_res st) * (999 / 1000) < err
                \<longrightarrow> sol_it st < 1000 \<and> err \<le> 1000000000"
    by blast
  show ?thesis
  proof (cases "sol_it st < 1001")
    case True
    then have "1001 - sol_it st' < 1001 - sol_it st" by (simp add: it)
    then show ?thesis by (rule measures_less)
  next
    case False
    with chk have le: "err \<le> last (sol_res st) * (999 / 1000)" by auto
    have "err * 5000 \<le> last (sol_res st) * 5000 - 1"
      using le guard by simp
    then have "\<lceil>err * 5000\<rceil> \<le> \<lceil>last (sol_res st) * 5000\<rceil> - 1"
      by (metis ceiling_mono ceiling_diff_one)
    moreover have "0 < \<lceil>last (sol_res st) * 5000\<rceil>"
      using guard by (simp add: ceiling_less_iff)
    ultimately have "nat \<lceil>err * 5000\<rceil> < nat \<lceil>last (sol_res st) * 5000\<rceil>"
      by linarith
    moreover have "1001 - sol_it st' \<le> 1001 - sol_it st" by (simp add: it)
    ultimately show ?thesis
      by (intro measures_lesseq measures_less) (simp_all add: res)
  qed
qed

lemma distortion_loop_total:
  assumes exit: "\<And>st. \<not> 1 / 5 < last (sol_res st) \<Longrightarrow> P st (Inr st)"
    and raise: "\<And>st e. 1 / 5 < last (sol_res st) \<Longrightarrow> loop_body c st = Inl e \<Longrightarrow> P st (Inl e)"
    and step: "\<And>st st' r. 1 / 5 < last (sol_res st) \<Longrightarrow> loop_body c st = Inr st' \<Longrightarrow>
                 distortion_loop c st' = Some r \<Longrightarrow> P st' r \<Longrightarrow> P st r"
  shows "\<exists>r. distortion_loop c st = Some r \<and> P st r"
proof (induction st
    rule: wf_induct_rule [OF wf_measures
            [of "[\<lambda>st. 1001 - sol_it st, \<lambda>st. nat \<lceil>last (sol_res st) * 5000\<rceil>]"]])
  case (1 st)
  show ?case
  proof (cases "1 / 5 < last (sol_res st)")
    case False
    then have "distortion_loop c st = Some (Inr st)"
      by (subst distortion_loop.simps) simp
    with exit [OF False] show ?thesis by simp
  next
    case True
    show ?thesis
    proof (cases "loop_body c st")
      case (Inl e)
      with True have "distortion_loop c st = Some (Inl e)"
        by (subst distortion_loop.simps) simp
      with raise [OF True Inl] show ?thesis by simp
    next
      case (Inr st')
      from "1.IH" [OF loop_body_measure [OF True Inr]]
      obtain r where r: "distortion_loop c st' = Some r" and P: "P st' r" by blast
      from True Inr r have "distortion_loop c st = Some r"
        by (subst distortion_loop.simps) simp
      with step [OF True Inr r P] show ?thesis by simp
    qed
  qed
qed

subsection \<open>Shapes\<close>




lemma length_pixel_rows: "length (pixel_rows ry rx) = nat ry * nat rx"
  by (simp add: pixel_rows_def length_concat comp_def sum_list_triv)

lemma length_pixel_columns: "length (pixel_columns ry rx) = nat ry * nat rx"
  by (simp add: pixel_columns_def length_concat sum_list_replicate)

lemma distortion_setup_D:
  assumes "distortion_setup s k1 k2 k3 p1 p2 = Inr (K, c, st0)"
  shows "get_intrinsics_as_K_matrix s = Inr K"
    and "sol_res st0 = [1000]" and "sol_it st0 = 0"
    and "sol_x st0 = P_und_x c" and "sol_y st0 = P_und_y c"
    and "length (P_und_x c) = nat (resolution_y s) * nat (resolution_x s)"
    and "length (P_und_y c) = nat (resolution_y s) * nat (resolution_x s)"
    and "K_fx c = m00 K" and "K_fy c = m11 K"
  using assms
  by (auto simp: distortion_setup_def Let_def length_pixel_rows length_pixel_columns
           split: sum.splits if_splits)


subsection \<open>The residual history\<close>

lemma diverged_at_snoc:
  assumes "length res = Suc n" and "\<not> diverged_at res i" and "diverged_at (res @ [err]) i"
  shows "i = Suc n \<and> 0 < n \<and> last res * (999 / 1000) < err \<and> (1000 \<le> n \<or> 1000000000 < err)"
proof -
  have ne: "res \<noteq> []" using assms(1) by auto
  show ?thesis
  proof (cases "i < length res")
    case True
    then have "i - 1 < length res" by simp
    with True have "(res @ [err]) ! i = res ! i" and "(res @ [err]) ! (i - 1) = res ! (i - 1)"
      by (simp_all only: nth_append if_True)
    with assms(3) True have "diverged_at res i"
      by (simp add: diverged_at_def)
    with assms(2) show ?thesis by simp
  next
    case False
    with assms(3) have i: "i = length res"
      by (auto simp: diverged_at_def)
    have "(res @ [err]) ! (i - 1) = last res"
      using ne i by (simp add: nth_append last_conv_nth)
    moreover have "(res @ [err]) ! i = err"
      using i by simp
    ultimately show ?thesis
      using assms(1,3) i by (auto simp: diverged_at_def)
  qed
qed

lemma distortion_loop_diverged:
  assumes run: "distortion_loop c st0 = Some r"
    and len: "length (sol_res st0) = Suc (sol_it st0)"
    and none: "\<forall>i. \<not> diverged_at (sol_res st0) i"
    and dv: "diverged_at (history r) i"
  shows "solver_raised r"
proof -
  define inv where
    "inv = (\<lambda>st :: solver_state. length (sol_res st) = Suc (sol_it st) \<and> (\<forall>i. \<not> diverged_at (sol_res st) i))"
  have "\<exists>r. distortion_loop c st0 = Some r
           \<and> (inv st0 \<longrightarrow> (\<forall>i. diverged_at (history r) i \<longrightarrow> solver_raised r))"
  proof (rule distortion_loop_total)
    fix st :: solver_state
    show "inv st \<longrightarrow> (\<forall>i. diverged_at (history (Inr st)) i \<longrightarrow> solver_raised (Inr st))"
      by (simp add: inv_def history_def)
  next
    fix st e
    assume body: "loop_body c st = Inl e"
    obtain ex st' where e: "e = (ex, st')" by (cases e)
    from loop_body_Inl_D [OF body [unfolded e]]
    show "inv st \<longrightarrow> (\<forall>i. diverged_at (history (Inl e)) i \<longrightarrow> solver_raised (Inl e))"
      by (auto simp: inv_def history_def solver_raised_def e)
  next
    fix st st' r
    assume body: "loop_body c st = Inr st'"
      and IH: "inv st' \<longrightarrow> (\<forall>i. diverged_at (history r) i \<longrightarrow> solver_raised r)"
    show "inv st \<longrightarrow> (\<forall>i. diverged_at (history r) i \<longrightarrow> solver_raised r)"
    proof
      assume inv: "inv st"
      from loop_body_Inr_D [OF body] obtain err where
        res: "sol_res st' = sol_res st @ [err]" and it: "sol_it st' = Suc (sol_it st)"
        and chk: "0 < sol_it st \<and> last (sol_res st) * (999 / 1000) < err
                    \<longrightarrow> sol_it st < 1000 \<and> err \<le> 1000000000"
        by blast
      have "\<not> diverged_at (sol_res st') j" for j
      proof
        assume "diverged_at (sol_res st') j"
        with diverged_at_snoc [of "sol_res st" "sol_it st" j err] inv chk
        show False by (auto simp: inv_def res)
      qed
      with inv have "inv st'" by (simp add: inv_def res it)
      with IH show "\<forall>i. diverged_at (history r) i \<longrightarrow> solver_raised r" by simp
    qed
  qed
  with run len none dv show ?thesis by (auto simp: inv_def)
qed

subsection \<open>The example runs\<close>

lemma np_hypot_zero: "np_hypot a 0 = \<bar>a\<bar>"
  by (simp add: np_hypot_def)

lemmas body_eval =
  power2_eq_square loop_body_def max_residual_def np_max_def np_hypot_zero distort_x_def
  distort_y_def update_x_def update_y_def example_ctx_def example_init_def Let_def

lemmas finish_eval =
  distortion_finish_def np_min_def np_max_def sign_ceil_def get_intrinsics_as_K_matrix_def
  set_intrinsics_from_K_matrix_def set_intrinsics_from_blender_params_def GlobalStorage_set_def
  scene_eval

lemma shifted_setup:
  "distortion_setup (shifted_scene sx) k1 0 0 p1 0
   = Inr (K_matrix 1 1 (- sx) 0, example_ctx sx k1 p1, example_init sx)"
  by (simp add: distortion_setup_def get_intrinsics_as_K_matrix_def np_linalg_inv_def
        pixel_rows_def pixel_columns_def example_ctx_def example_init_def scene_eval)


text \<open>No distortion: the first pass finds the residual 0.\<close>

lemma run_no_distortion:
  "distortion_loop (example_ctx 0 0 0) (example_init 0)
   = Some (Inr \<lparr>sol_x = [0], sol_y = [0], sol_res = [1000, 0], sol_it = 1, sol_factor = 1\<rparr>)"
  apply (subst distortion_loop.simps)
  apply (simp add: body_eval)
  apply (subst distortion_loop.simps)
  apply simp
  done


text \<open>
  \<open>k1 = 1000\<close> at \<open>P_und = (1, 0)\<close>: the residuals are 1000 and 997003000000, and the
  second pass raises.
\<close>

lemma run_unstable:
  "distortion_loop (example_ctx 1 1000 0) (example_init 1)
   = Some (Inl (DistortionUnstable,
                \<lparr>sol_x = [- 999], sol_y = [0], sol_res = [1000, 1000, 997003000000],
                 sol_it = 2, sol_factor = 1 / 2\<rparr>))"
  apply (subst distortion_loop.simps)
  apply (simp add: body_eval)
  apply (subst distortion_loop.simps)
  apply (simp add: body_eval)
  done

text \<open>
  \<open>p1 = 1 / 1500000000\<close> at \<open>P_und = (1000000000, 0)\<close>: the residuals are 2000000000
  and 0.
\<close>

lemma run_far:
  "distortion_loop (example_ctx 1000000000 0 (1 / 1500000000)) (example_init 1000000000)
   = Some (Inr \<lparr>sol_x = [- 1000000000], sol_y = [0], sol_res = [1000, 2000000000, 0],
                 sol_it = 2, sol_factor = 1\<rparr>)"
  apply (subst distortion_loop.simps)
  apply (simp add: body_eval)
  apply (subst distortion_loop.simps)
  apply (simp add: body_eval)
  apply (subst distortion_loop.simps)
  apply simp
  done

subsection \<open>Termination\<close>




subsection \<open>The divergence exceptions\<close>

text \<open>
  C3, as amended. If in some pass after the first the residual is above 0.999 times the
  residual of the pass before, and in that pass either more than 1000 passes have run
  or the residual is above 1e9, then \<open>set_lens_distortion\<close> raises one of its two
  divergence exceptions instead of returning. (The residuals of a run are the entries of
  \<^verbatim>\<open>res\<close>; a residual above 1e9, or a pass beyond the 1000th, that comes with a residual
  at most 0.999 times the previous one raises nothing.)
\<close>

theorem set_lens_distortion_raises_on_divergence:
  assumes su: "distortion_setup s k1 k2 k3 p1 p2 = Inr (K, c, st0)"
    and run: "distortion_loop c st0 = Some r"
    and dv: "diverged_at (history r) i"
  shows "set_lens_distortion s k1 k2 k3 p1 p2 = Some (Inl (DistortionStalled, s))
         \<or> set_lens_distortion s k1 k2 k3 p1 p2 = Some (Inl (DistortionUnstable, s))"
proof -
  have "\<forall>i. \<not> diverged_at (sol_res st0) i"
    using distortion_setup_D(2) [OF su] by (simp add: diverged_at_def)
  with distortion_loop_diverged [OF run _ _ dv] distortion_setup_D(2,3) [OF su]
  have "solver_raised r" by simp
  then show ?thesis
    using su run
    by (auto simp: solver_raised_def set_lens_distortion_def split: sum.splits prod.splits)
qed


theorem set_lens_distortion_raises_on_divergence_witness:
  "distortion_setup (shifted_scene 1) 1000 0 0 0 0
     = Inr (K_matrix 1 1 (- 1) 0, example_ctx 1 1000 0, example_init 1)
   \<and> distortion_loop (example_ctx 1 1000 0) (example_init 1)
       = Some (Inl (DistortionUnstable,
                    \<lparr>sol_x = [- 999], sol_y = [0], sol_res = [1000, 1000, 997003000000],
                     sol_it = 2, sol_factor = 1 / 2\<rparr>))
   \<and> diverged_at [1000, 1000, 997003000000] 2
   \<and> set_lens_distortion (shifted_scene 1) 1000 0 0 0 0
       = Some (Inl (DistortionUnstable, shifted_scene 1))"
proof -
  have dv: "diverged_at [1000, 1000, 997003000000] 2"
    by (simp add: diverged_at_def)
  then have "diverged_at (history (Inl (DistortionUnstable,
                \<lparr>sol_x = [- 999], sol_y = [0], sol_res = [1000, 1000, 997003000000],
                 sol_it = 2, sol_factor = 1 / 2\<rparr>))) 2"
    by (simp add: history_def)
  from set_lens_distortion_raises_on_divergence [OF shifted_setup run_unstable this]
  have "set_lens_distortion (shifted_scene 1) 1000 0 0 0 0
          = Some (Inl (DistortionUnstable, shifted_scene 1))"
    by (simp add: set_lens_distortion_def shifted_setup run_unstable)
  with dv shifted_setup [of 1 1000 0] run_unstable show ?thesis by simp
qed

text \<open>
  C3, as stated, fails: for the scene with \<open>P_und = (1000000000, 0)\<close> and
  \<open>p1 = 1 / 1500000000\<close> the residual of the first pass is 2000000000, above 1e9, the
  residual of the second pass is 0, and \<open>set_lens_distortion\<close> returns.
\<close>

theorem residual_above_1e9_returns:
  "distortion_setup (shifted_scene 1000000000) 0 0 0 (1 / 1500000000) 0
     = Inr (K_matrix 1 1 (- 1000000000) 0, example_ctx 1000000000 0 (1 / 1500000000),
            example_init 1000000000)
   \<and> distortion_loop (example_ctx 1000000000 0 (1 / 1500000000)) (example_init 1000000000)
       = Some (Inr \<lparr>sol_x = [- 1000000000], sol_y = [0], sol_res = [1000, 2000000000, 0],
                     sol_it = 2, sol_factor = 1\<rparr>)
   \<and> (1000000000 :: real) < [1000, 2000000000, 0] ! 1
   \<and> set_lens_distortion (shifted_scene 1000000000) 0 0 0 (1 / 1500000000) 0
       = Some (Inr (example_scene
                      \<lparr>cam := example_camera\<lparr>lens := 12, shift_x := - (1000000001 / 3),
                                              shift_y := 1 / 3\<rparr>,
                       resolution_x := 3, resolution_y := 3,
                       global_storage :=
                         [''_lens_distortion_is_used'' \<mapsto>
                            \<lparr>mapping_coords = [[2], [2]], original_image_res = (1, 1)\<rparr>]\<rparr>))"
proof -
  have "set_lens_distortion (shifted_scene 1000000000) 0 0 0 (1 / 1500000000) 0
       = Some (Inr (example_scene
                      \<lparr>cam := example_camera\<lparr>lens := 12, shift_x := - (1000000001 / 3),
                                              shift_y := 1 / 3\<rparr>,
                       resolution_x := 3, resolution_y := 3,
                       global_storage :=
                         [''_lens_distortion_is_used'' \<mapsto>
                            \<lparr>mapping_coords = [[2], [2]], original_image_res = (1, 1)\<rparr>]\<rparr>))"
    by (simp add: set_lens_distortion_def shifted_setup run_far) (simp add: finish_eval)
  with shifted_setup [of 1000000000 0 "1 / 1500000000"] run_far show ?thesis by simp
qed

subsection \<open>The convergence threshold\<close>





subsection \<open>The hand-over through the global storage\<close>

lemma distortion_finish_D:
  assumes "distortion_finish s orig K st = Inr s'"
  shows "\<exists>s1 min_u min_v.
           np_min (map (\<lambda>x. m00 K * x + m02 K) (sol_x st)) = Inr min_u
         \<and> np_min (map (\<lambda>y. m11 K * y + m12 K) (sol_y st)) = Inr min_v
         \<and> s' = GlobalStorage_set s1 ''_lens_distortion_is_used''
                  \<lparr>mapping_coords =
                     [map (\<lambda>a. a + (m12 K - (of_int (sign_ceil min_v) - 1) + 1 - m12 K))
                        (map (\<lambda>y. m11 K * y + m12 K) (sol_y st)),
                      map (\<lambda>a. a + (m02 K - (of_int (sign_ceil min_u) - 1) + 1 - m02 K))
                        (map (\<lambda>x. m00 K * x + m02 K) (sol_x st))],
                    original_image_res = orig\<rparr>"
  using assms
  by (auto simp: distortion_finish_def Let_def split: sum.splits)

text \<open>
  C6. Every call of \<open>set_lens_distortion\<close> that returns has stored, under the key
  \<^verbatim>\<open>_lens_distortion_is_used\<close> of the global storage, a record with the backward mapping
  computed from the solver's result (row \<open>v\<close>, then row \<open>u\<close>, shifted into the enlarged
  image) and with the resolution \<open>(resolution_y, resolution_x)\<close> that the scene had
  before the call.
\<close>

theorem lens_distortion_stored:
  assumes "set_lens_distortion s k1 k2 k3 p1 p2 = Some (Inr s')"
  shows "\<exists>K c st0 st min_u min_v.
           distortion_setup s k1 k2 k3 p1 p2 = Inr (K, c, st0)
         \<and> distortion_loop c st0 = Some (Inr st)
         \<and> np_min (map (\<lambda>x. m00 K * x + m02 K) (sol_x st)) = Inr min_u
         \<and> np_min (map (\<lambda>y. m11 K * y + m12 K) (sol_y st)) = Inr min_v
         \<and> global_storage s' ''_lens_distortion_is_used''
             = Some \<lparr>mapping_coords =
                       [map (\<lambda>a. a + (m12 K - (of_int (sign_ceil min_v) - 1) + 1 - m12 K))
                          (map (\<lambda>y. m11 K * y + m12 K) (sol_y st)),
                        map (\<lambda>a. a + (m02 K - (of_int (sign_ceil min_u) - 1) + 1 - m02 K))
                          (map (\<lambda>x. m00 K * x + m02 K) (sol_x st))],
                      original_image_res = (resolution_y s, resolution_x s)\<rparr>"
proof -
  from assms obtain K c st0 st where su: "distortion_setup s k1 k2 k3 p1 p2 = Inr (K, c, st0)"
    and run: "distortion_loop c st0 = Some (Inr st)"
    and fin: "distortion_finish s (resolution_y s, resolution_x s) K st = Inr s'"
    by (auto simp: set_lens_distortion_def Let_def split: sum.splits prod.splits option.splits)
  from distortion_finish_D [OF fin] su run show ?thesis
    by (auto simp: GlobalStorage_set_def)
qed

theorem lens_distortion_stored_witness:
  "set_lens_distortion (shifted_scene 0) 0 0 0 0 0
     = Some (Inr (example_scene
                    \<lparr>cam := example_camera\<lparr>lens := 12, shift_x := - (1 / 3), shift_y := 1 / 3\<rparr>,
                     resolution_x := 3, resolution_y := 3,
                     global_storage :=
                       [''_lens_distortion_is_used'' \<mapsto>
                          \<lparr>mapping_coords = [[2], [2]], original_image_res = (1, 1)\<rparr>]\<rparr>))
   \<and> (resolution_y (shifted_scene 0), resolution_x (shifted_scene 0)) = (1, 1)
   \<and> (\<exists>d. global_storage
              (example_scene
                 \<lparr>cam := example_camera\<lparr>lens := 12, shift_x := - (1 / 3), shift_y := 1 / 3\<rparr>,
                  resolution_x := 3, resolution_y := 3,
                  global_storage :=
                    [''_lens_distortion_is_used'' \<mapsto>
                       \<lparr>mapping_coords = [[2], [2]], original_image_res = (1, 1)\<rparr>]\<rparr>)
              ''_lens_distortion_is_used'' = Some d
          \<and> original_image_res d = (resolution_y (shifted_scene 0), resolution_x (shifted_scene 0)))"
proof -
  have run: "set_lens_distortion (shifted_scene 0) 0 0 0 0 0
     = Some (Inr (example_scene
                    \<lparr>cam := example_camera\<lparr>lens := 12, shift_x := - (1 / 3), shift_y := 1 / 3\<rparr>,
                     resolution_x := 3, resolution_y := 3,
                     global_storage :=
                       [''_lens_distortion_is_used'' \<mapsto>
                          \<lparr>mapping_coords = [[2], [2]], original_image_res = (1, 1)\<rparr>]\<rparr>))"
    by (simp add: set_lens_distortion_def shifted_setup run_no_distortion) (simp add: finish_eval)
  from lens_distortion_stored [OF run]
  have "\<exists>d. global_storage
              (example_scene
                 \<lparr>cam := example_camera\<lparr>lens := 12, shift_x := - (1 / 3), shift_y := 1 / 3\<rparr>,
                  resolution_x := 3, resolution_y := 3,
                  global_storage :=
                    [''_lens_distortion_is_used'' \<mapsto>
                       \<lparr>mapping_coords = [[2], [2]], original_image_res = (1, 1)\<rparr>]\<rparr>)
              ''_lens_distortion_is_used'' = Some d
          \<and> original_image_res d = (resolution_y (shifted_scene 0), resolution_x (shifted_scene 0))"
    by auto
  with run show ?thesis
    by (simp add: shifted_scene_def example_scene_def)
qed

end
